theory Spec2Isabelle
  imports Complex_Main
begin

section \<open>Numbers and text as the script engine has them\<close>

text \<open>
  A number of the source language is a double. The model keeps the three special
  values apart and writes a finite double as the rational it stands for: \<open>Fin r\<close> is
  the double nearest to \<open>r\<close>. Rounding of the mantissa is not modelled; overflow to an
  infinity is (\<open>to_number\<close>). The two zeros are one value here.
  Text is a list of 8-bit characters; code units above 255 are outside the model.
\<close>

datatype jsnum = NaN | PosInf | NegInf | Fin rat

definition is_finite :: "jsnum \<Rightarrow> bool" where
  "is_finite n = (case n of Fin _ \<Rightarrow> True | _ \<Rightarrow> False)"

definition overflow_bound :: rat where
  "overflow_bound = 2 ^ 1024 - 2 ^ 970"

definition to_number :: "rat \<Rightarrow> jsnum" where
  "to_number r =
     (if overflow_bound \<le> r then PosInf
      else if r \<le> - overflow_bound then NegInf
      else Fin r)"

fun jsadd :: "jsnum \<Rightarrow> jsnum \<Rightarrow> jsnum" where
  "jsadd NaN _ = NaN"
| "jsadd _ NaN = NaN"
| "jsadd PosInf NegInf = NaN"
| "jsadd NegInf PosInf = NaN"
| "jsadd PosInf _ = PosInf"
| "jsadd _ PosInf = PosInf"
| "jsadd NegInf _ = NegInf"
| "jsadd _ NegInf = NegInf"
| "jsadd (Fin a) (Fin b) = to_number (a + b)"

definition is_digit :: "char \<Rightarrow> bool" where
  "is_digit c = (c \<in> set ''0123456789'')"

definition is_space :: "char \<Rightarrow> bool" where
  "is_space c = ((of_char c :: nat) \<in> {9, 10, 11, 12, 13, 32, 160})"

definition digit_val :: "char \<Rightarrow> nat" where
  "digit_val c = of_char c - 48"

definition digits_val :: "string \<Rightarrow> nat" where
  "digits_val z = foldl (\<lambda>a c. 10 * a + digit_val c) 0 z"

definition is_sign :: "string \<Rightarrow> bool" where
  "is_sign t = (case t of [] \<Rightarrow> False | c # _ \<Rightarrow> c = CHR ''+'' \<or> c = CHR ''-'')"

definition is_minus :: "string \<Rightarrow> bool" where
  "is_minus t = (case t of [] \<Rightarrow> False | c # _ \<Rightarrow> c = CHR ''-'')"

definition strip_sign :: "string \<Rightarrow> string" where
  "strip_sign t = (if is_sign t then tl t else t)"

definition signed :: "string \<Rightarrow> rat \<Rightarrow> rat" where
  "signed t r = (if is_minus t then - r else r)"

text \<open>
  \<open>parseInt(s, 10)\<close>: leading white space is dropped, one sign is read, then the
  longest run of decimal digits; no digit gives NaN.
\<close>

definition parseInt10 :: "string \<Rightarrow> jsnum" where
  "parseInt10 s =
     (let t = dropWhile is_space s;
          z = takeWhile is_digit (strip_sign t)
      in if z = [] then NaN else to_number (signed t (of_nat (digits_val z))))"

definition scale10 :: "rat \<Rightarrow> int \<Rightarrow> rat" where
  "scale10 r k = (if 0 \<le> k then r * 10 ^ nat k else r / 10 ^ nat (- k))"

text \<open>
  The exponent part of a decimal literal: \<open>e\<close> or \<open>E\<close>, an optional sign and at
  least one digit; anything else is not part of the number and counts as exponent 0.
\<close>

definition exponent :: "string \<Rightarrow> int" where
  "exponent r =
     (case r of
        [] \<Rightarrow> 0
      | c # r' \<Rightarrow>
          if c = CHR ''e'' \<or> c = CHR ''E'' then
            (let de = takeWhile is_digit (strip_sign r')
             in if de = [] then 0
                else if is_minus r' then - int (digits_val de) else int (digits_val de))
          else 0)"

text \<open>
  \<open>parseFloat(s)\<close>: leading white space is dropped, one sign is read, then either the
  word Infinity or the longest decimal literal (digits, an optional fraction, an optional
  exponent); no literal gives NaN.
\<close>

definition parseFloat :: "string \<Rightarrow> jsnum" where
  "parseFloat s =
     (let t = dropWhile is_space s;
          u = strip_sign t
      in if take 8 u = ''Infinity'' then (if is_minus t then NegInf else PosInf)
         else
           (let d1 = takeWhile is_digit u;
                r1 = dropWhile is_digit u;
                dot = (r1 \<noteq> [] \<and> hd r1 = CHR ''.'');
                d2 = (if dot then takeWhile is_digit (tl r1) else []);
                r2 = (if dot then dropWhile is_digit (tl r1) else r1)
            in if d1 = [] \<and> d2 = [] then NaN
               else to_number
                      (signed t (scale10 (of_nat (digits_val (d1 @ d2)))
                                         (exponent r2 - int (length d2))))))"

text \<open>The operator \<open>||\<close> on an optional text: absent and empty text are both falsy.\<close>

definition truthy :: "string option \<Rightarrow> bool" where
  "truthy a = (case a of None \<Rightarrow> False | Some s \<Rightarrow> s \<noteq> [])"

definition or_default :: "string option \<Rightarrow> string \<Rightarrow> string" where
  "or_default a d = (case a of None \<Rightarrow> d | Some s \<Rightarrow> if s = [] then d else s)"

text \<open>Conversion of an absent attribute (null) to text, as \<open>parseInt\<close> does it.\<close>

definition to_string :: "string option \<Rightarrow> string" where
  "to_string a = (case a of None \<Rightarrow> ''null'' | Some s \<Rightarrow> s)"

section \<open>The markup document\<close>

text \<open>
  The document the markup parser hands back: elements with a tag, attributes and child
  elements. \<open>getElementsByTagName\<close> lists the elements of a tag in document order, the
  root included; \<open>getAttribute\<close> is null (\<open>None\<close>) for an attribute that is not there.
\<close>

datatype xml = Element string "(string \<times> string) list" "xml list"

fun elements :: "xml \<Rightarrow> xml list" where
  "elements (Element t a cs) = Element t a cs # concat (map elements cs)"

fun tagName :: "xml \<Rightarrow> string" where
  "tagName (Element t a cs) = t"

fun getAttribute :: "xml \<Rightarrow> string \<Rightarrow> string option" where
  "getAttribute (Element t a cs) k = map_of a k"

definition getElementsByTagName :: "xml \<Rightarrow> string \<Rightarrow> xml list" where
  "getElementsByTagName d t = filter (\<lambda>e. tagName e = t) (elements d)"

section \<open>Records of the import and cells of the graph\<close>

text \<open>The interfaces \<open>NodeData\<close> and \<open>EdgeData\<close> as the markup path fills them.\<close>

record NodeData =
  nd_id :: "string option"
  nd_label :: "string option"
  nd_x :: jsnum
  nd_y :: jsnum
  nd_type :: "string option"
  nd_fill :: string
  nd_width :: jsnum
  nd_height :: jsnum
  nd_stroke :: string
  nd_strokeWidth :: jsnum

record EdgeData =
  ed_source :: "string option"
  ed_target :: "string option"
  ed_id :: "string option"
  ed_name :: "string option"
  ed_type :: string

text \<open>A row of the tabular parser: header names paired with the text of the cells.\<close>

type_synonym row = "(string \<times> string) list"

definition field :: "row \<Rightarrow> string \<Rightarrow> string option" where
  "field r k = map_of r k"

text \<open>What \<open>addNode\<close> and \<open>addEdge\<close> are handed.\<close>

datatype jsval = JStr string | JNum jsnum

record body_attrs =
  b_fill :: string
  b_stroke :: "string option"
  b_strokeWidth :: jsval

record node_meta =
  m_id :: "string option"
  m_label :: "string option"
  m_x :: jsnum
  m_y :: jsnum
  m_width :: "jsnum option"
  m_height :: "jsnum option"
  m_shape :: "string option"
  m_body :: body_attrs
  m_text :: "string option"

record line_attrs =
  l_stroke :: string
  l_strokeWidth :: nat
  l_strokeDasharray :: "string option"

record marker =
  mk_name :: string
  mk_size :: nat
  mk_fill :: string
  mk_stroke :: string
  mk_shape :: string

record label_attrs =
  lb_text :: string
  lb_fill :: string
  lb_fontSize :: nat

record edge_meta =
  e_source :: "string option"
  e_target :: "string option"
  e_line :: line_attrs
  e_sourceMarker :: marker
  e_targetMarker :: marker
  e_label :: "label_attrs option"

text \<open>
  The graph of the rendering library, as far as the application uses it. It keeps the
  nodes and edges it is handed, in insertion order, each node under the identifier it
  was given or, when none was given, under one the library makes up (\<open>uuid\<close>, a
  parameter of the model). \<open>addNode\<close> throws when the shape name is not registered
  (which names are is a parameter, \<open>registered\<close>: the registrations are not in the
  file), and a node whose identifier is already in the graph is dropped without a
  word. \<open>addEdge\<close> takes any edge: it does not look at the endpoints. Edges get
  identifiers of the library's own, which the model leaves out.
\<close>

datatype exn = UnknownShape "string option"

record graph =
  g_nodes :: "(string \<times> node_meta) list"
  g_edges :: "edge_meta list"

definition clearCells :: graph where
  "clearCells = \<lparr>g_nodes = [], g_edges = []\<rparr>"

definition addNode ::
  "(graph \<Rightarrow> string) \<Rightarrow> (string option \<Rightarrow> bool) \<Rightarrow> node_meta \<Rightarrow> graph \<Rightarrow>
     exn + graph \<times> string" where
  "addNode uuid registered m g =
     (if registered (m_shape m) then
        (let i = (case m_id m of Some s \<Rightarrow> s | None \<Rightarrow> uuid g)
         in if i \<in> set (map fst (g_nodes g)) then Inr (g, i)
            else Inr (g\<lparr>g_nodes := g_nodes g @ [(i, m)]\<rparr>, i))
      else Inl (UnknownShape (m_shape m)))"

definition addEdge :: "edge_meta \<Rightarrow> graph \<Rightarrow> graph" where
  "addEdge e g = g\<lparr>g_edges := g_edges g @ [e]\<rparr>"

text \<open>\<open>getCellById\<close> followed by \<open>isNode\<close>: the node stored under an identifier.\<close>

definition getNodeById :: "graph \<Rightarrow> string \<Rightarrow> node_meta option" where
  "getNodeById g i = map_of (g_nodes g) i"

text \<open>
  \<open>toJSON\<close> of a node: the library keeps the place and the size of a node under
  \<open>position\<close> and \<open>size\<close>, and gives back the identifier, the shape, these two and
  the attributes. It has no key \<open>x\<close>, \<open>y\<close>, \<open>width\<close>, \<open>height\<close> or \<open>label\<close>.
\<close>

record node_json =
  j_id :: string
  j_shape :: "string option"
  j_position :: "jsnum \<times> jsnum"
  j_size :: "jsnum option \<times> jsnum option"
  j_body :: body_attrs
  j_text :: "string option"

definition toJSON :: "string \<Rightarrow> node_meta \<Rightarrow> node_json" where
  "toJSON i m =
     \<lparr>j_id = i, j_shape = m_shape m, j_position = (m_x m, m_y m),
      j_size = (m_width m, m_height m), j_body = m_body m, j_text = m_text m\<rparr>"

text \<open>
  The state of the component: the graph (null until it is mounted), the dialog flag, the
  selection and the banner, and the trace of what was written to the console and to the
  banner.
\<close>

datatype event =
    ConsoleLog string
  | ConsoleError string row
  | ConsoleCaught string exn
  | SetError string

record app =
  st_graph :: "graph option"
  st_showModal :: bool
  st_selectedNode :: "string option"
  st_error :: "string option"
  st_events :: "event list"

definition setError :: "string \<Rightarrow> app \<Rightarrow> app" where
  "setError msg st = st\<lparr>st_error := Some msg, st_events := st_events st @ [SetError msg]\<rparr>"

definition circle_marker :: marker where
  "circle_marker =
     \<lparr>mk_name = ''marker'', mk_size = 8, mk_fill = ''purple'', mk_stroke = ''purple'',
      mk_shape = ''circle''\<rparr>"

definition diamond_marker :: marker where
  "diamond_marker =
     \<lparr>mk_name = ''marker'', mk_size = 8, mk_fill = ''purple'', mk_stroke = ''purple'',
      mk_shape = ''diamond''\<rparr>"

definition dasharray :: "string option \<Rightarrow> string option" where
  "dasharray t =
     (if t = Some ''dashed'' then Some ''5, 5''
      else if t = Some ''dotted'' then Some ''2, 2'' else None)"

section \<open>Interaction: click and copy\<close>

definition handleNodeClick :: "string \<Rightarrow> app \<Rightarrow> app" where
  "handleNodeClick cell_id st =
     (case st_graph st of
        None \<Rightarrow> st
      | Some g \<Rightarrow>
          (case getNodeById g cell_id of
             None \<Rightarrow> st
           | Some _ \<Rightarrow> st\<lparr>st_selectedNode := Some cell_id, st_showModal := True\<rparr>))"

text \<open>
  The sum \<open>x + 100\<close> where \<open>x\<close> was read from an object: a key that is not there
  reads as undefined (\<open>None\<close>), and undefined plus a number is NaN.
\<close>

definition plus_number :: "jsnum option \<Rightarrow> jsnum \<Rightarrow> jsnum" where
  "plus_number x n = (case x of None \<Rightarrow> NaN | Some v \<Rightarrow> jsadd v n)"

text \<open>
  \<open>handleCopyNode\<close> takes \<open>shape\<close>, \<open>x\<close>, \<open>y\<close>, \<open>width\<close>, \<open>height\<close>, \<open>label\<close>
  and \<open>attrs\<close> out of the \<open>toJSON\<close> of the selected node. Only \<open>shape\<close> and
  \<open>attrs\<close> are keys of it; the other five read as undefined. The copy is inserted
  without an identifier, so the library names it. There is no \<open>try\<close> here: a throw of
  \<open>addNode\<close> leaves the handler before the dialog is closed.
\<close>

definition copy_meta :: "node_json \<Rightarrow> node_meta" where
  "copy_meta json =
     (let shape = j_shape json;
          x = None; y = None; width = None; height = None; label = None
      in \<lparr>m_id = None, m_label = label,
          m_x = plus_number x (Fin 100), m_y = plus_number y (Fin 100),
          m_width = width, m_height = height, m_shape = shape,
          m_body = j_body json, m_text = j_text json\<rparr>)"

definition copy_edge :: "string \<Rightarrow> string \<Rightarrow> edge_meta" where
  "copy_edge src tgt =
     \<lparr>e_source = Some src, e_target = Some tgt,
      e_line = \<lparr>l_stroke = ''#000'', l_strokeWidth = 2, l_strokeDasharray = Some ''5, 5''\<rparr>,
      e_sourceMarker = circle_marker, e_targetMarker = diamond_marker,
      e_label = None\<rparr>"

definition handleCopyNode ::
  "(graph \<Rightarrow> string) \<Rightarrow> (string option \<Rightarrow> bool) \<Rightarrow> app \<Rightarrow> exn + app" where
  "handleCopyNode uuid registered st =
     (case st_graph st of
        None \<Rightarrow> Inr (st\<lparr>st_showModal := False\<rparr>)
      | Some g \<Rightarrow>
          (case st_selectedNode st of
             None \<Rightarrow> Inr (st\<lparr>st_showModal := False\<rparr>)
           | Some sel \<Rightarrow>
               if sel = [] then Inr (st\<lparr>st_showModal := False\<rparr>)
               else
                 (case getNodeById g sel of
                    None \<Rightarrow> Inr (st\<lparr>st_showModal := False\<rparr>)
                  | Some clickedNode \<Rightarrow>
                      (case addNode uuid registered (copy_meta (toJSON sel clickedNode)) g of
                         Inl e \<Rightarrow> Inl e
                       | Inr (g1, copied) \<Rightarrow>
                           Inr (st\<lparr>st_graph := Some (addEdge (copy_edge sel copied) g1),
                                  st_showModal := False\<rparr>)))))"

section \<open>Import of a markup document\<close>

definition xml_node :: "xml \<Rightarrow> NodeData" where
  "xml_node node =
     \<lparr>nd_id = getAttribute node ''id'',
      nd_label = getAttribute node ''label'',
      nd_x = parseInt10 (to_string (getAttribute node ''x'')),
      nd_y = parseInt10 (to_string (getAttribute node ''y'')),
      nd_type = getAttribute node ''type'',
      nd_fill = or_default (getAttribute node ''fill'') ''#3366cc'',
      nd_width = parseInt10 (or_default (getAttribute node ''width'') ''100''),
      nd_height = parseInt10 (or_default (getAttribute node ''height'') ''100''),
      nd_stroke = or_default (getAttribute node ''stroke'') ''#000'',
      nd_strokeWidth = parseInt10 (or_default (getAttribute node ''strokeWidth'') ''1'')\<rparr>"

definition xml_edge :: "xml \<Rightarrow> EdgeData" where
  "xml_edge edge =
     \<lparr>ed_source = getAttribute edge ''source'',
      ed_target = getAttribute edge ''target'',
      ed_id = (if truthy (getAttribute edge ''id'') then getAttribute edge ''id'' else None),
      ed_name = (if truthy (getAttribute edge ''name'') then getAttribute edge ''name'' else None),
      ed_type = or_default (getAttribute edge ''type'') ''solid''\<rparr>"

definition xml_node_meta :: "NodeData \<Rightarrow> node_meta" where
  "xml_node_meta node =
     \<lparr>m_id = nd_id node, m_label = nd_label node,
      m_x = nd_x node, m_y = nd_y node,
      m_width = Some (nd_width node),
      m_height = Some (if nd_type node = Some ''rectangle'' then Fin 50 else nd_height node),
      m_shape = nd_type node,
      m_body = \<lparr>b_fill = nd_fill node, b_stroke = Some (nd_stroke node),
                b_strokeWidth = JNum (nd_strokeWidth node)\<rparr>,
      m_text = nd_label node\<rparr>"

definition xml_edge_meta :: "EdgeData \<Rightarrow> edge_meta" where
  "xml_edge_meta edge =
     \<lparr>e_source = ed_source edge, e_target = ed_target edge,
      e_line = \<lparr>l_stroke = ''#000'', l_strokeWidth = 2,
                l_strokeDasharray = dasharray (Some (ed_type edge))\<rparr>,
      e_sourceMarker = circle_marker, e_targetMarker = diamond_marker,
      e_label = Some \<lparr>lb_text = or_default (ed_name edge) [], lb_fill = ''#333'',
                      lb_fontSize = 12\<rparr>\<rparr>"

definition xml_nodes :: "xml \<Rightarrow> NodeData list" where
  "xml_nodes xmlDoc = map xml_node (getElementsByTagName xmlDoc ''node'')"

definition xml_edges :: "xml \<Rightarrow> EdgeData list" where
  "xml_edges xmlDoc = map xml_edge (getElementsByTagName xmlDoc ''edge'')"

text \<open>
  The loop \<open>nodes.forEach\<close>: a throw of \<open>addNode\<close> ends it, and the graph stays as
  far as it had got.
\<close>

fun addNodes ::
  "(graph \<Rightarrow> string) \<Rightarrow> (string option \<Rightarrow> bool) \<Rightarrow> node_meta list \<Rightarrow> graph \<Rightarrow>
     graph \<times> exn option" where
  "addNodes uuid registered [] g = (g, None)"
| "addNodes uuid registered (m # ms) g =
     (case addNode uuid registered m g of
        Inl e \<Rightarrow> (g, Some e)
      | Inr (g', i) \<Rightarrow> addNodes uuid registered ms g')"

definition addEdges :: "edge_meta list \<Rightarrow> graph \<Rightarrow> graph" where
  "addEdges es g = foldl (\<lambda>g e. addEdge e g) g es"

definition xml_error_message :: string where
  "xml_error_message =
     ''Error processing the XML file. Please check the file format and try again.''"

text \<open>
  \<open>processXML\<close>. The markup parser is a parameter; it does not throw (an ill-formed
  text gives a document of its own). A throw of \<open>addNode\<close> goes to the \<open>catch\<close>,
  which puts the message on the banner; by then the graph has been cleared and holds
  the nodes inserted before the throw, and no edge.
\<close>

definition processXML ::
  "(string \<Rightarrow> xml) \<Rightarrow> (graph \<Rightarrow> string) \<Rightarrow> (string option \<Rightarrow> bool) \<Rightarrow> string \<Rightarrow> app \<Rightarrow> app" where
  "processXML parseFromString uuid registered xmlContent st =
     (let xmlDoc = parseFromString xmlContent;
          nodes = xml_nodes xmlDoc;
          edges = xml_edges xmlDoc;
          st1 = st\<lparr>st_events := st_events st @
                  [ConsoleLog ''Parsed Nodes:'', ConsoleLog ''Parsed Edges:'']\<rparr>
      in case st_graph st1 of
           None \<Rightarrow> st1
         | Some g \<Rightarrow>
             (case addNodes uuid registered (map xml_node_meta nodes) clearCells of
                (g1, Some e) \<Rightarrow> setError xml_error_message (st1\<lparr>st_graph := Some g1\<rparr>)
              | (g1, None) \<Rightarrow>
                  st1\<lparr>st_graph := Some (addEdges (map xml_edge_meta edges) g1)\<rparr>))"

section \<open>Import of a tabular text\<close>

text \<open>
  \<open>csvContent.split('---')\<close>: the pieces between the occurrences of the separator,
  found from the left.
\<close>

fun split_dashes :: "string \<Rightarrow> string \<Rightarrow> string list" where
  "split_dashes acc (a # b # c # cs) =
     (if a = CHR ''-'' \<and> b = CHR ''-'' \<and> c = CHR ''-''
      then rev acc # split_dashes [] cs
      else split_dashes (a # acc) (b # c # cs))"
| "split_dashes acc cs = [rev acc @ cs]"

definition split_sections :: "string \<Rightarrow> string list" where
  "split_sections s = split_dashes [] s"





definition piece :: "string list \<Rightarrow> nat \<Rightarrow> string option" where
  "piece ps i = (if i < length ps then Some (ps ! i) else None)"

definition trim :: "string \<Rightarrow> string" where
  "trim s = rev (dropWhile is_space (rev (dropWhile is_space s)))"

definition node_ok :: "row \<Rightarrow> bool" where
  "node_ok node =
     (truthy (field node ''id'') \<and> truthy (field node ''label'') \<and>
      field node ''x'' \<noteq> None \<and> field node ''y'' \<noteq> None \<and> truthy (field node ''type''))"

definition edge_ok :: "row \<Rightarrow> bool" where
  "edge_ok edge = (truthy (field edge ''source'') \<and> truthy (field edge ''target''))"

definition csv_node_meta :: "row \<Rightarrow> node_meta" where
  "csv_node_meta node =
     \<lparr>m_id = field node ''id'', m_label = field node ''label'',
      m_x = (case field node ''x'' of Some t \<Rightarrow> parseFloat t | None \<Rightarrow> NaN),
      m_y = (case field node ''y'' of Some t \<Rightarrow> parseFloat t | None \<Rightarrow> NaN),
      m_width = Some (parseFloat (or_default (field node ''width'') ''100'')),
      m_height = Some (if field node ''type'' = Some ''rectangle'' then Fin 50
                       else parseFloat (or_default (field node ''height'') ''100'')),
      m_shape = field node ''type'',
      m_body = \<lparr>b_fill = or_default (field node ''fill'') ''#3366cc'',
                b_stroke = field node ''stroke'',
                b_strokeWidth = (if truthy (field node ''strokeWidth'')
                                 then JStr (or_default (field node ''strokeWidth'') [])
                                 else JNum (Fin 1))\<rparr>,
      m_text = field node ''label''\<rparr>"

definition csv_edge_meta :: "row \<Rightarrow> edge_meta" where
  "csv_edge_meta edge =
     \<lparr>e_source = field edge ''source'', e_target = field edge ''target'',
      e_line = \<lparr>l_stroke = ''purple'', l_strokeWidth = 2,
                l_strokeDasharray = dasharray (field edge ''type'')\<rparr>,
      e_sourceMarker = circle_marker, e_targetMarker = diamond_marker,
      e_label = None\<rparr>"

text \<open>
  The loop \<open>nodesData.forEach\<close>: the graph and the console trace. A row that fails the
  test is written to the console and the loop goes on; a throw of \<open>addNode\<close> ends the
  loop.
\<close>

fun csv_nodes_loop ::
  "(graph \<Rightarrow> string) \<Rightarrow> (string option \<Rightarrow> bool) \<Rightarrow> row list \<Rightarrow> graph \<times> event list \<Rightarrow>
     (graph \<times> event list) \<times> exn option" where
  "csv_nodes_loop uuid registered [] ge = (ge, None)"
| "csv_nodes_loop uuid registered (node # rest) ge =
     (if node_ok node then
        (case addNode uuid registered (csv_node_meta node) (fst ge) of
           Inl e \<Rightarrow> (ge, Some e)
         | Inr (g', i) \<Rightarrow> csv_nodes_loop uuid registered rest (g', snd ge))
      else csv_nodes_loop uuid registered rest
             (fst ge, snd ge @ [ConsoleError ''Invalid node data:'' node]))"

text \<open>The body of the loop \<open>edgesData.forEach\<close>.\<close>

definition csv_edge_step :: "graph \<times> event list \<Rightarrow> row \<Rightarrow> graph \<times> event list" where
  "csv_edge_step ge edge =
     (if edge_ok edge then (addEdge (csv_edge_meta edge) (fst ge), snd ge)
      else (fst ge, snd ge @ [ConsoleError ''Invalid edge data:'' edge]))"

definition csv_format_message :: string where
  "csv_format_message =
     ''Invalid CSV format. Please ensure nodes and edges are separated by '' @
     [CHR 0x22] @ ''---'' @ [CHR 0x22] @ ''.''"

definition csv_error_message :: string where
  "csv_error_message =
     ''Error processing the CSV files. Please check the file format and try again.''"

text \<open>
  \<open>processCSV\<close>. The tabular parser (with a header line, empty lines skipped) is a
  parameter. A throw of \<open>addNode\<close> goes to the \<open>catch\<close>, which writes to the console
  and puts the message on the banner; the graph holds the nodes inserted before the throw
  and no edge.
\<close>

definition processCSV ::
  "(string \<Rightarrow> row list) \<Rightarrow> (graph \<Rightarrow> string) \<Rightarrow> (string option \<Rightarrow> bool) \<Rightarrow> string \<Rightarrow> app \<Rightarrow> app" where
  "processCSV parse uuid registered csvContent st =
     (let ps = split_sections csvContent;
          nodesContent = piece ps 0;
          edgesContent = piece ps 1
      in if \<not> truthy nodesContent \<or> \<not> truthy edgesContent then
           setError csv_format_message st
         else
           (let nodesData = parse (trim (or_default nodesContent []));
                edgesData = parse (trim (or_default edgesContent []));
                st1 = st\<lparr>st_events := st_events st @
                        [ConsoleLog ''Parsed Nodes Data:'', ConsoleLog ''Parsed Edges Data:'']\<rparr>
            in case st_graph st1 of
                 None \<Rightarrow> st1
               | Some g \<Rightarrow>
                   (case csv_nodes_loop uuid registered nodesData (clearCells, st_events st1) of
                      (ge1, Some e) \<Rightarrow>
                        setError csv_error_message
                          (st1\<lparr>st_graph := Some (fst ge1),
                               st_events := snd ge1 @
                                 [ConsoleCaught ''Error processing the CSV files:'' e]\<rparr>)
                    | (ge1, None) \<Rightarrow>
                        (let ge2 = foldl csv_edge_step ge1 edgesData
                         in st1\<lparr>st_graph := Some (fst ge2), st_events := snd ge2\<rparr>))))"

section \<open>What the graph holds after an operation\<close>

definition store_nodes :: "app \<Rightarrow> node_meta list" where
  "store_nodes st = (case st_graph st of None \<Rightarrow> [] | Some g \<Rightarrow> map snd (g_nodes g))"

definition store_edges :: "app \<Rightarrow> edge_meta list" where
  "store_edges st = (case st_graph st of None \<Rightarrow> [] | Some g \<Rightarrow> g_edges g)"

text \<open>
  A batch of nodes that the graph takes whole: every shape name is registered, every
  node has an identifier, and no identifier comes twice.
\<close>

definition batch_ok :: "(string option \<Rightarrow> bool) \<Rightarrow> node_meta list \<Rightarrow> bool" where
  "batch_ok registered ms =
     (list_all (\<lambda>m. registered (m_shape m)) ms \<and> list_all (\<lambda>m. m_id m \<noteq> None) ms \<and>
      distinct (map m_id ms))"

definition all_registered :: "(string option \<Rightarrow> bool) \<Rightarrow> node_meta list \<Rightarrow> bool" where
  "all_registered registered ms = list_all (\<lambda>m. registered (m_shape m)) ms"


definition no_digit :: "string \<Rightarrow> bool" where
  "no_digit s = list_all (\<lambda>c. \<not> is_digit c) s"



definition not_finite :: "jsnum option \<Rightarrow> bool" where
  "not_finite v = (case v of None \<Rightarrow> False | Some n \<Rightarrow> \<not> is_finite n)"



section \<open>Sample inputs\<close>

definition LF :: string where
  "LF = [CHR 0x0A]"

definition uuid0 :: "graph \<Rightarrow> string" where
  "uuid0 g = replicate (Suc (length (g_nodes g))) (CHR ''#'')"

text \<open>A registry with the two shape names of the legend.\<close>

definition registered0 :: "string option \<Rightarrow> bool" where
  "registered0 t = (t = Some ''rectangle'' \<or> t = Some ''circle'')"

definition st0 :: app where
  "st0 = \<lparr>st_graph = Some clearCells, st_showModal = False, st_selectedNode = None,
          st_error = None, st_events = []\<rparr>"

definition sample_doc :: xml where
  "sample_doc =
     Element ''graph'' []
       [Element ''node'' [(''id'', ''a''), (''label'', ''A''), (''x'', ''10''), (''y'', ''20''),
                          (''type'', ''rectangle''), (''height'', ''80'')] [],
        Element ''node'' [(''id'', ''b''), (''label'', ''B''), (''x'', ''30''), (''y'', ''40''),
                          (''type'', ''circle''), (''height'', ''70'')] [],
        Element ''node'' [(''id'', ''c''), (''label'', ''C''), (''x'', ''left''), (''y'', ''40''),
                          (''type'', ''circle''), (''width'', ''wide''), (''height'', ''tall''),
                          (''strokeWidth'', ''thick'')] [],
        Element ''edge'' [(''source'', ''a''), (''target'', ''b''), (''type'', ''dashed''),
                          (''name'', ''joins'')] [],
        Element ''edge'' [(''source'', ''a''), (''target'', ''ghost'')] []]"

definition sample_parser :: "string \<Rightarrow> xml" where
  "sample_parser s = sample_doc"

definition sample_node_rows :: "row list" where
  "sample_node_rows =
     [[(''id'', ''a''), (''label'', ''A''), (''x'', ''10''), (''y'', ''20''),
       (''type'', ''rectangle''), (''height'', ''80''), (''width'', '''')],
      [(''id'', ''''), (''label'', ''B''), (''x'', ''30''), (''y'', ''40''),
       (''type'', ''circle''), (''height'', ''70''), (''width'', '''')],
      [(''id'', ''c''), (''label'', ''C''), (''x'', ''''), (''y'', ''40''),
       (''type'', ''circle''), (''height'', ''tall''), (''width'', ''wide'')],
      [(''id'', ''d''), (''label'', ''D''), (''x'', ''5'')]]"

definition sample_edge_rows :: "row list" where
  "sample_edge_rows =
     [[(''source'', ''a''), (''target'', ''c''), (''type'', ''dashed''), (''name'', ''joins'')],
      [(''source'', ''a''), (''target'', ''''), (''type'', ''''), (''name'', '''')],
      [(''source'', ''a''), (''target'', ''ghost''), (''type'', ''''), (''name'', '''')]]"

definition sample_nodes_text :: string where
  "sample_nodes_text =
     ''id,label,x,y,type,height,width'' @ LF @
     ''a,A,10,20,rectangle,80,'' @ LF @
     '',B,30,40,circle,70,'' @ LF @
     ''c,C,,40,circle,tall,wide'' @ LF @
     ''d,D,5''"

definition sample_edges_text :: string where
  "sample_edges_text =
     ''source,target,type,name'' @ LF @
     ''a,c,dashed,joins'' @ LF @
     ''a,,,'' @ LF @
     ''a,ghost,,''"

definition sample_csv :: string where
  "sample_csv = sample_nodes_text @ LF @ ''---'' @ LF @ sample_edges_text"

text \<open>The tabular parser at the two sample sections.\<close>

definition sample_papa :: "string \<Rightarrow> row list" where
  "sample_papa s =
     (if s = sample_nodes_text then sample_node_rows
      else if s = sample_edges_text then sample_edge_rows
      else [])"

text \<open>A document and a table whose second node has a shape name that is not registered.\<close>

definition hexagon_doc :: xml where
  "hexagon_doc =
     Element ''graph'' []
       [Element ''node'' [(''id'', ''a''), (''label'', ''A''), (''x'', ''10''), (''y'', ''20''),
                          (''type'', ''circle'')] [],
        Element ''node'' [(''id'', ''h''), (''label'', ''H''), (''x'', ''30''), (''y'', ''40''),
                          (''type'', ''hexagon'')] [],
        Element ''node'' [(''id'', ''b''), (''label'', ''B''), (''x'', ''50''), (''y'', ''60''),
                          (''type'', ''circle'')] [],
        Element ''edge'' [(''source'', ''a''), (''target'', ''b'')] []]"

definition hexagon_parser :: "string \<Rightarrow> xml" where
  "hexagon_parser s = hexagon_doc"

definition hexagon_node_rows :: "row list" where
  "hexagon_node_rows =
     [[(''id'', ''a''), (''label'', ''A''), (''x'', ''10''), (''y'', ''20''), (''type'', ''circle'')],
      [(''id'', ''h''), (''label'', ''H''), (''x'', ''30''), (''y'', ''40''), (''type'', ''hexagon'')],
      [(''id'', ''b''), (''label'', ''B''), (''x'', ''50''), (''y'', ''60''), (''type'', ''circle'')]]"

definition hexagon_edge_rows :: "row list" where
  "hexagon_edge_rows = [[(''source'', ''a''), (''target'', ''b'')]]"

definition hexagon_nodes_text :: string where
  "hexagon_nodes_text =
     ''id,label,x,y,type'' @ LF @ ''a,A,10,20,circle'' @ LF @ ''h,H,30,40,hexagon'' @ LF @
     ''b,B,50,60,circle''"

definition hexagon_edges_text :: string where
  "hexagon_edges_text = ''source,target'' @ LF @ ''a,b''"

definition hexagon_csv :: string where
  "hexagon_csv = hexagon_nodes_text @ LF @ ''---'' @ LF @ hexagon_edges_text"

definition hexagon_papa :: "string \<Rightarrow> row list" where
  "hexagon_papa s =
     (if s = hexagon_nodes_text then hexagon_node_rows
      else if s = hexagon_edges_text then hexagon_edge_rows
      else [])"


definition sample_node :: node_meta where
  "sample_node =
     \<lparr>m_id = Some ''a'', m_label = Some ''A'', m_x = Fin 10, m_y = Fin 20,
      m_width = Some (Fin 100), m_height = Some (Fin 50), m_shape = Some ''rectangle'',
      m_body = \<lparr>b_fill = ''#3366cc'', b_stroke = Some ''#000'',
                b_strokeWidth = JNum (Fin 1)\<rparr>,
      m_text = Some ''A''\<rparr>"

definition sample_graph :: graph where
  "sample_graph = \<lparr>g_nodes = [(''a'', sample_node)], g_edges = []\<rparr>"

definition sample_selected :: app where
  "sample_selected =
     \<lparr>st_graph = Some sample_graph, st_showModal = True, st_selectedNode = Some ''a'',
      st_error = None, st_events = []\<rparr>"

lemmas number_defs =
  parseInt10_def parseFloat_def is_space_def is_digit_def strip_sign_def is_sign_def
  is_minus_def signed_def digits_val_def digit_val_def to_number_def overflow_bound_def
  scale10_def exponent_def to_string_def or_default_def truthy_def

lemmas sample_defs =
  st0_def uuid0_def sample_doc_def sample_parser_def sample_node_rows_def
  sample_edge_rows_def sample_nodes_text_def sample_edges_text_def sample_csv_def
  sample_papa_def LF_def sample_node_def sample_graph_def sample_selected_def
  registered0_def

section \<open>Supporting lemmas\<close>

subsection \<open>Numeric coercion\<close>

lemma parseInt10_100: "parseInt10 ''100'' = Fin 100"
  by (simp add: number_defs)

lemma parseInt10_1: "parseInt10 ''1'' = Fin 1"
  by (simp add: number_defs)

lemma parseFloat_100: "parseFloat ''100'' = Fin 100"
  by (simp add: number_defs)

lemma takeWhile_no_digit: "no_digit s \<Longrightarrow> takeWhile is_digit s = []"
  by (cases s) (simp_all add: no_digit_def)

lemma no_digit_dropWhile: "no_digit s \<Longrightarrow> no_digit (dropWhile P s)"
  by (induction s) (simp_all add: no_digit_def)

lemma no_digit_tl: "no_digit s \<Longrightarrow> no_digit (tl s)"
  by (cases s) (simp_all add: no_digit_def)

lemma no_digit_strip_sign: "no_digit s \<Longrightarrow> no_digit (strip_sign s)"
  by (simp add: strip_sign_def no_digit_tl)

lemma parseInt10_no_digit: "no_digit s \<Longrightarrow> parseInt10 s = NaN"
  by (simp add: parseInt10_def Let_def takeWhile_no_digit no_digit_strip_sign
        no_digit_dropWhile)

lemma parseFloat_no_digit:
  assumes "no_digit s"
  shows "\<not> is_finite (parseFloat s)"
proof -
  let ?u = "strip_sign (dropWhile is_space s)"
  have u: "no_digit ?u"
    using assms by (simp add: no_digit_strip_sign no_digit_dropWhile)
  have d1: "takeWhile is_digit ?u = []"
    using u by (rule takeWhile_no_digit)
  have r1: "dropWhile is_digit ?u = ?u"
    using d1 by (cases ?u) (simp_all split: if_splits)
  have d2: "takeWhile is_digit (tl ?u) = []"
    using u by (simp add: takeWhile_no_digit no_digit_tl)
  show ?thesis
    by (simp add: parseFloat_def Let_def d1 r1 d2 is_finite_def)
qed











subsection \<open>The section separator\<close>



subsection \<open>The loops of an import\<close>

lemma addNodes_edges: "g_edges (fst (addNodes uuid registered ms g)) = g_edges g"
  by (induction ms arbitrary: g) (auto simp: addNode_def Let_def split: sum.splits)

lemma addNodes_from:
  "set (map snd (g_nodes (fst (addNodes uuid registered ms g)))) \<subseteq>
     set (map snd (g_nodes g)) \<union> set ms"
proof (induction ms arbitrary: g)
  case Nil
  then show ?case by simp
next
  case (Cons m ms)
  show ?case
  proof (cases "addNode uuid registered m g")
    case (Inl e)
    then show ?thesis by auto
  next
    case (Inr p)
    obtain g' i where p: "p = (g', i)" by (cases p)
    have A: "set (map snd (g_nodes g')) \<subseteq> set (map snd (g_nodes g)) \<union> {m}"
      using Inr p by (auto simp: addNode_def Let_def split: if_splits)
    have B: "set (map snd (g_nodes (fst (addNodes uuid registered ms g')))) \<subseteq>
        set (map snd (g_nodes g')) \<union> set ms"
      by (rule Cons.IH)
    have C: "addNodes uuid registered (m # ms) g = addNodes uuid registered ms g'"
      using Inr p by simp
    have "set (map snd (g_nodes (fst (addNodes uuid registered ms g')))) \<subseteq>
        set (map snd (g_nodes g)) \<union> set (m # ms)"
      using A B by (simp only: list.set) blast
    then show ?thesis by (simp only: C)
  qed
qed

lemma addNodes_throws:
  "snd (addNodes uuid registered ms g) = None \<longleftrightarrow> all_registered registered ms"
  by (induction ms arbitrary: g)
     (auto simp: all_registered_def addNode_def Let_def split: sum.splits if_splits)

lemma addNodes_batch:
  assumes "batch_ok registered ms"
    and "Some ` set (map fst (g_nodes g)) \<inter> set (map m_id ms) = {}"
  shows "addNodes uuid registered ms g = (g\<lparr>g_nodes := g_nodes g @ map (\<lambda>m. (the (m_id m), m)) ms\<rparr>, None)"
  using assms
proof (induction ms arbitrary: g)
  case Nil
  then show ?case by simp
next
  case (Cons m ms)
  from Cons.prems(1) obtain i where i: "m_id m = Some i" and r: "registered (m_shape m)"
    and rest: "batch_ok registered ms" and new: "Some i \<notin> set (map m_id ms)"
    by (auto simp: batch_ok_def)
  have fresh: "i \<notin> set (map fst (g_nodes g))"
    using Cons.prems(2) i by auto
  let ?g = "g\<lparr>g_nodes := g_nodes g @ [(i, m)]\<rparr>"
  have step: "addNode uuid registered m g = Inr (?g, i)"
    using i r fresh by (simp add: addNode_def)
  have "Some ` set (map fst (g_nodes ?g)) \<inter> set (map m_id ms) = {}"
    using Cons.prems(2) new by auto
  then have "addNodes uuid registered ms ?g =
      (?g\<lparr>g_nodes := g_nodes ?g @ map (\<lambda>m. (the (m_id m), m)) ms\<rparr>, None)"
    using Cons.IH [OF rest] by blast
  then show ?case using step i by simp
qed

lemma addEdges_edges: "g_edges (addEdges es g) = g_edges g @ es"
  unfolding addEdges_def
  by (induction es arbitrary: g) (simp_all add: addEdge_def)

lemma addEdges_nodes: "g_nodes (addEdges es g) = g_nodes g"
  unfolding addEdges_def
  by (induction es arbitrary: g) (simp_all add: addEdge_def)

lemma csv_nodes_loop_graph:
  "fst (fst (csv_nodes_loop uuid registered rows (g, evs))) =
     fst (addNodes uuid registered (map csv_node_meta (filter node_ok rows)) g) \<and>
   snd (csv_nodes_loop uuid registered rows (g, evs)) =
     snd (addNodes uuid registered (map csv_node_meta (filter node_ok rows)) g)"
  by (induction rows arbitrary: g evs) (auto split: sum.splits)

lemma csv_nodes_loop_events:
  "snd (csv_nodes_loop uuid registered rows (g, evs)) = None \<Longrightarrow>
   snd (fst (csv_nodes_loop uuid registered rows (g, evs))) =
     evs @ map (ConsoleError ''Invalid node data:'') (filter (\<lambda>r. \<not> node_ok r) rows)"
  by (induction rows arbitrary: g evs) (auto split: sum.splits)

lemma csv_edge_loop:
  "g_edges (fst (foldl csv_edge_step ge rows)) =
     g_edges (fst ge) @ map csv_edge_meta (filter edge_ok rows) \<and>
   g_nodes (fst (foldl csv_edge_step ge rows)) = g_nodes (fst ge) \<and>
   snd (foldl csv_edge_step ge rows) =
     snd ge @ map (ConsoleError ''Invalid edge data:'') (filter (\<lambda>r. \<not> edge_ok r) rows)"
  by (induction rows arbitrary: ge) (simp_all add: csv_edge_step_def addEdge_def)


subsection \<open>The graph after an import\<close>

lemma processXML_done:
  assumes "st_graph st = Some g"
    and "all_registered registered (map xml_node_meta (xml_nodes (p c)))"
  shows "st_graph (processXML p uuid registered c st) =
           Some (addEdges (map xml_edge_meta (xml_edges (p c)))
                  (fst (addNodes uuid registered (map xml_node_meta (xml_nodes (p c))) clearCells)))"
    and "store_edges (processXML p uuid registered c st) = map xml_edge_meta (xml_edges (p c))"
    and "st_events (processXML p uuid registered c st) =
           st_events st @ [ConsoleLog ''Parsed Nodes:'', ConsoleLog ''Parsed Edges:'']"
    and "st_error (processXML p uuid registered c st) = st_error st"
proof -
  obtain g1 where a: "addNodes uuid registered (map xml_node_meta (xml_nodes (p c))) clearCells
      = (g1, None)"
    using addNodes_throws [of uuid registered "map xml_node_meta (xml_nodes (p c))" clearCells]
      assms(2)
    by (cases "addNodes uuid registered (map xml_node_meta (xml_nodes (p c))) clearCells") auto
  have e: "g_edges g1 = []"
    using addNodes_edges [of uuid registered "map xml_node_meta (xml_nodes (p c))" clearCells] a
    by (simp add: clearCells_def)
  show "st_graph (processXML p uuid registered c st) =
           Some (addEdges (map xml_edge_meta (xml_edges (p c)))
                  (fst (addNodes uuid registered (map xml_node_meta (xml_nodes (p c))) clearCells)))"
    and "store_edges (processXML p uuid registered c st) = map xml_edge_meta (xml_edges (p c))"
    and "st_events (processXML p uuid registered c st) =
           st_events st @ [ConsoleLog ''Parsed Nodes:'', ConsoleLog ''Parsed Edges:'']"
    and "st_error (processXML p uuid registered c st) = st_error st"
    using assms(1) a e
    by (simp_all add: processXML_def Let_def store_edges_def addEdges_edges)
qed

lemma processXML_thrown:
  assumes "st_graph st = Some g"
    and "\<not> all_registered registered (map xml_node_meta (xml_nodes (p c)))"
  shows "store_edges (processXML p uuid registered c st) = []"
    and "st_events (processXML p uuid registered c st) =
           st_events st @ [ConsoleLog ''Parsed Nodes:'', ConsoleLog ''Parsed Edges:'',
                           SetError xml_error_message]"
    and "st_error (processXML p uuid registered c st) = Some xml_error_message"
proof -
  obtain g1 e where a: "addNodes uuid registered (map xml_node_meta (xml_nodes (p c))) clearCells
      = (g1, Some e)"
    using addNodes_throws [of uuid registered "map xml_node_meta (xml_nodes (p c))" clearCells]
      assms(2)
    by (cases "addNodes uuid registered (map xml_node_meta (xml_nodes (p c))) clearCells") auto
  have e: "g_edges g1 = []"
    using addNodes_edges [of uuid registered "map xml_node_meta (xml_nodes (p c))" clearCells] a
    by (simp add: clearCells_def)
  show "store_edges (processXML p uuid registered c st) = []"
    and "st_events (processXML p uuid registered c st) =
           st_events st @ [ConsoleLog ''Parsed Nodes:'', ConsoleLog ''Parsed Edges:'',
                           SetError xml_error_message]"
    and "st_error (processXML p uuid registered c st) = Some xml_error_message"
    using assms(1) a e
    by (simp_all add: processXML_def Let_def store_edges_def setError_def)
qed


lemma processXML_batch:
  assumes "st_graph st = Some g"
    and "batch_ok registered (map xml_node_meta (xml_nodes (p c)))"
  shows "store_nodes (processXML p uuid registered c st) = map xml_node_meta (xml_nodes (p c))"
proof -
  have r: "all_registered registered (map xml_node_meta (xml_nodes (p c)))"
    using assms(2) by (simp add: batch_ok_def all_registered_def)
  have "addNodes uuid registered (map xml_node_meta (xml_nodes (p c))) clearCells =
      (clearCells\<lparr>g_nodes := g_nodes clearCells @
         map (\<lambda>m. (the (m_id m), m)) (map xml_node_meta (xml_nodes (p c)))\<rparr>, None)"
    by (rule addNodes_batch [OF assms(2)]) (simp add: clearCells_def)
  then show ?thesis
    by (simp add: processXML_done(1) [where p = p and c = c, OF assms(1) r] store_nodes_def addEdges_nodes
          clearCells_def comp_def)
qed

lemma processCSV_done:
  assumes "st_graph st = Some g"
    and "split_sections c = nc # ec # rest" and "nc \<noteq> []" and "ec \<noteq> []"
    and "all_registered registered (map csv_node_meta (filter node_ok (parse (trim nc))))"
  shows "st_graph (processCSV parse uuid registered c st) =
           Some (addEdges (map csv_edge_meta (filter edge_ok (parse (trim ec))))
                  (fst (addNodes uuid registered
                         (map csv_node_meta (filter node_ok (parse (trim nc)))) clearCells)))"
    and "store_edges (processCSV parse uuid registered c st) =
           map csv_edge_meta (filter edge_ok (parse (trim ec)))"
    and "st_events (processCSV parse uuid registered c st) =
           st_events st @ [ConsoleLog ''Parsed Nodes Data:'', ConsoleLog ''Parsed Edges Data:''] @
           map (ConsoleError ''Invalid node data:'') (filter (\<lambda>r. \<not> node_ok r) (parse (trim nc))) @
           map (ConsoleError ''Invalid edge data:'') (filter (\<lambda>r. \<not> edge_ok r) (parse (trim ec)))"
    and "st_error (processCSV parse uuid registered c st) = st_error st"
proof -
  let ?evs = "st_events st @ [ConsoleLog ''Parsed Nodes Data:'', ConsoleLog ''Parsed Edges Data:'']"
  let ?ms = "map csv_node_meta (filter node_ok (parse (trim nc)))"
  let ?loop = "csv_nodes_loop uuid registered (parse (trim nc)) (clearCells, ?evs)"
  have n: "snd ?loop = None"
    using csv_nodes_loop_graph [of uuid registered "parse (trim nc)" clearCells ?evs]
      addNodes_throws [of uuid registered ?ms clearCells] assms(5)
    by simp
  obtain g1 evs1 where a: "?loop = ((g1, evs1), None)"
    using n by (cases ?loop) auto
  have g1: "g1 = fst (addNodes uuid registered ?ms clearCells)"
    using csv_nodes_loop_graph [of uuid registered "parse (trim nc)" clearCells ?evs] a by simp
  have ev1: "evs1 = ?evs @ map (ConsoleError ''Invalid node data:'')
      (filter (\<lambda>r. \<not> node_ok r) (parse (trim nc)))"
    using csv_nodes_loop_events [OF n] a by simp
  have e: "g_edges g1 = []"
    using addNodes_edges [of uuid registered ?ms clearCells] g1 by (simp add: clearCells_def)
  have fold: "foldl csv_edge_step (g1, evs1) (parse (trim ec)) =
      (addEdges (map csv_edge_meta (filter edge_ok (parse (trim ec)))) g1,
       evs1 @ map (ConsoleError ''Invalid edge data:'') (filter (\<lambda>r. \<not> edge_ok r) (parse (trim ec))))"
    using csv_edge_loop [of "(g1, evs1)" "parse (trim ec)"]
      addEdges_edges [of "map csv_edge_meta (filter edge_ok (parse (trim ec)))" g1]
      addEdges_nodes [of "map csv_edge_meta (filter edge_ok (parse (trim ec)))" g1]
    by (cases "foldl csv_edge_step (g1, evs1) (parse (trim ec))") simp
  have res: "processCSV parse uuid registered c st =
      st\<lparr>st_events := evs1 @ map (ConsoleError ''Invalid edge data:'')
             (filter (\<lambda>r. \<not> edge_ok r) (parse (trim ec))),
         st_graph := Some (addEdges (map csv_edge_meta (filter edge_ok (parse (trim ec)))) g1)\<rparr>"
    using assms(1-4) a fold
    by (simp add: processCSV_def Let_def piece_def truthy_def or_default_def)
  show "st_graph (processCSV parse uuid registered c st) =
           Some (addEdges (map csv_edge_meta (filter edge_ok (parse (trim ec))))
                  (fst (addNodes uuid registered ?ms clearCells)))"
    by (simp add: res g1)
  show "store_edges (processCSV parse uuid registered c st) =
           map csv_edge_meta (filter edge_ok (parse (trim ec)))"
    by (simp add: res store_edges_def addEdges_edges e)
  show "st_events (processCSV parse uuid registered c st) =
           st_events st @ [ConsoleLog ''Parsed Nodes Data:'', ConsoleLog ''Parsed Edges Data:''] @
           map (ConsoleError ''Invalid node data:'') (filter (\<lambda>r. \<not> node_ok r) (parse (trim nc))) @
           map (ConsoleError ''Invalid edge data:'') (filter (\<lambda>r. \<not> edge_ok r) (parse (trim ec)))"
    by (simp add: res ev1)
  show "st_error (processCSV parse uuid registered c st) = st_error st"
    by (simp add: res)
qed

lemma processCSV_thrown:
  assumes "st_graph st = Some g"
    and "split_sections c = nc # ec # rest" and "nc \<noteq> []" and "ec \<noteq> []"
    and "\<not> all_registered registered (map csv_node_meta (filter node_ok (parse (trim nc))))"
  shows "store_edges (processCSV parse uuid registered c st) = []"
    and "st_error (processCSV parse uuid registered c st) = Some csv_error_message"
    and "last (st_events (processCSV parse uuid registered c st)) = SetError csv_error_message"
proof -
  let ?evs = "st_events st @ [ConsoleLog ''Parsed Nodes Data:'', ConsoleLog ''Parsed Edges Data:'']"
  let ?ms = "map csv_node_meta (filter node_ok (parse (trim nc)))"
  let ?loop = "csv_nodes_loop uuid registered (parse (trim nc)) (clearCells, ?evs)"
  have n: "snd ?loop \<noteq> None"
    using csv_nodes_loop_graph [of uuid registered "parse (trim nc)" clearCells ?evs]
      addNodes_throws [of uuid registered ?ms clearCells] assms(5)
    by simp
  obtain g1 evs1 e where a: "?loop = ((g1, evs1), Some e)"
    using n by (cases ?loop) auto
  have g1: "g1 = fst (addNodes uuid registered ?ms clearCells)"
    using csv_nodes_loop_graph [of uuid registered "parse (trim nc)" clearCells ?evs] a by simp
  have e: "g_edges g1 = []"
    using addNodes_edges [of uuid registered ?ms clearCells] g1 by (simp add: clearCells_def)
  show "store_edges (processCSV parse uuid registered c st) = []"
    and "st_error (processCSV parse uuid registered c st) = Some csv_error_message"
    and "last (st_events (processCSV parse uuid registered c st)) = SetError csv_error_message"
    using assms(1-4) a e
    by (simp_all add: processCSV_def Let_def piece_def truthy_def or_default_def
          store_edges_def setError_def)
qed

lemma processCSV_nodes_from:
  assumes "split_sections c = nc # ec # rest" and "nc \<noteq> []" and "ec \<noteq> []"
  shows "set (store_nodes (processCSV parse uuid registered c st)) \<subseteq>
     set (map csv_node_meta (filter node_ok (parse (trim nc))))"
proof (cases "st_graph st")
  case None
  then show ?thesis
    using assms
    by (simp add: processCSV_def Let_def store_nodes_def piece_def truthy_def or_default_def)
next
  case (Some g)
  let ?evs = "st_events st @ [ConsoleLog ''Parsed Nodes Data:'', ConsoleLog ''Parsed Edges Data:'']"
  let ?ms = "map csv_node_meta (filter node_ok (parse (trim nc)))"
  let ?loop = "csv_nodes_loop uuid registered (parse (trim nc)) (clearCells, ?evs)"
  obtain g1 evs1 r where a: "?loop = ((g1, evs1), r)"
    by (cases ?loop) auto
  have g1: "g1 = fst (addNodes uuid registered ?ms clearCells)"
    using csv_nodes_loop_graph [of uuid registered "parse (trim nc)" clearCells ?evs] a by simp
  have sub: "set (map snd (g_nodes g1)) \<subseteq> set ?ms"
    using addNodes_from [of uuid registered ?ms clearCells] g1 by (simp add: clearCells_def)
  have "g_nodes (fst (foldl csv_edge_step (g1, evs1) (parse (trim ec)))) = g_nodes g1"
    using csv_edge_loop [of "(g1, evs1)" "parse (trim ec)"] by simp
  then show ?thesis
    using Some assms a sub
    by (cases r)
       (auto simp: processCSV_def Let_def store_nodes_def piece_def truthy_def or_default_def
          setError_def)
qed

lemma processCSV_batch:
  assumes "st_graph st = Some g"
    and "split_sections c = nc # ec # rest" and "nc \<noteq> []" and "ec \<noteq> []"
    and "batch_ok registered (map csv_node_meta (filter node_ok (parse (trim nc))))"
  shows "store_nodes (processCSV parse uuid registered c st) =
           map csv_node_meta (filter node_ok (parse (trim nc)))"
proof -
  let ?ms = "map csv_node_meta (filter node_ok (parse (trim nc)))"
  have r: "all_registered registered ?ms"
    using assms(5) by (simp add: batch_ok_def all_registered_def)
  have "addNodes uuid registered ?ms clearCells =
      (clearCells\<lparr>g_nodes := g_nodes clearCells @ map (\<lambda>m. (the (m_id m), m)) ?ms\<rparr>, None)"
    by (rule addNodes_batch [OF assms(5)]) (simp add: clearCells_def)
  then show ?thesis
    by (simp add: processCSV_done(1) [where parse = parse and nc = nc, OF assms(1-4) r] store_nodes_def addEdges_nodes
          clearCells_def comp_def)
qed

subsection \<open>Batches in terms of elements and rows\<close>

lemma xml_all_registered:
  "all_registered registered (map xml_node_meta (xml_nodes d)) \<longleftrightarrow>
   list_all (\<lambda>e. registered (getAttribute e ''type'')) (getElementsByTagName d ''node'')"
  by (simp add: all_registered_def xml_nodes_def list_all_iff xml_node_meta_def xml_node_def)

lemma csv_all_registered:
  "all_registered registered (map csv_node_meta rows) \<longleftrightarrow>
   list_all (\<lambda>r. registered (field r ''type'')) rows"
  by (simp add: all_registered_def list_all_iff csv_node_meta_def)

lemma xml_batch_ok:
  assumes "list_all (\<lambda>e. registered (getAttribute e ''type'')) (getElementsByTagName d ''node'')"
    and "list_all (\<lambda>e. getAttribute e ''id'' \<noteq> None) (getElementsByTagName d ''node'')"
    and "distinct (map (\<lambda>e. getAttribute e ''id'') (getElementsByTagName d ''node''))"
  shows "batch_ok registered (map xml_node_meta (xml_nodes d))"
  using assms
  by (simp add: batch_ok_def xml_nodes_def list_all_iff xml_node_meta_def xml_node_def comp_def)

lemma csv_batch_ok:
  assumes "list_all (\<lambda>r. registered (field r ''type'')) (filter node_ok rows)"
    and "distinct (map (\<lambda>r. field r ''id'') (filter node_ok rows))"
  shows "batch_ok registered (map csv_node_meta (filter node_ok rows))"
proof -
  have "m_id (csv_node_meta r) \<noteq> None" if "node_ok r" for r
    using that by (cases "field r ''id''") (simp_all add: node_ok_def truthy_def csv_node_meta_def)
  then have a: "list_all (\<lambda>m. m_id m \<noteq> None) (map csv_node_meta (filter node_ok rows))"
    by (simp add: list_all_iff)
  have d: "distinct (map m_id (map csv_node_meta (filter node_ok rows)))"
    using assms(2) by (simp add: csv_node_meta_def comp_def)
  have r: "list_all (\<lambda>m. registered (m_shape m)) (map csv_node_meta (filter node_ok rows))"
    using assms(1) by (simp add: list_all_iff csv_node_meta_def)
  show ?thesis
    unfolding batch_ok_def using a d r by blast
qed

subsection \<open>The sample inputs\<close>

lemma sample_csv_sections:
  "split_sections sample_csv = [sample_nodes_text @ LF, LF @ sample_edges_text]"
  by (simp add: split_sections_def sample_defs)

lemma sample_trim:
  "trim (sample_nodes_text @ LF) = sample_nodes_text"
  "trim (LF @ sample_edges_text) = sample_edges_text"
  by (simp_all add: trim_def sample_defs is_space_def)

lemma sample_rows_ok:
  "filter node_ok (sample_papa sample_nodes_text) = [sample_node_rows ! 0, sample_node_rows ! 2]"
  "filter edge_ok (sample_papa sample_edges_text) = [sample_edge_rows ! 0, sample_edge_rows ! 2]"
  "filter (\<lambda>r. \<not> node_ok r) (sample_papa sample_nodes_text) =
     [sample_node_rows ! 1, sample_node_rows ! 3]"
  "filter (\<lambda>r. \<not> edge_ok r) (sample_papa sample_edges_text) = [sample_edge_rows ! 1]"
  by (simp_all add: sample_papa_def sample_node_rows_def sample_edge_rows_def
        sample_nodes_text_def sample_edges_text_def LF_def
        node_ok_def edge_ok_def field_def truthy_def)

lemma sample_nodes_of_doc:
  "getElementsByTagName (sample_parser c) ''node'' =
     [Element ''node'' [(''id'', ''a''), (''label'', ''A''), (''x'', ''10''), (''y'', ''20''),
                        (''type'', ''rectangle''), (''height'', ''80'')] [],
      Element ''node'' [(''id'', ''b''), (''label'', ''B''), (''x'', ''30''), (''y'', ''40''),
                        (''type'', ''circle''), (''height'', ''70'')] [],
      Element ''node'' [(''id'', ''c''), (''label'', ''C''), (''x'', ''left''), (''y'', ''40''),
                        (''type'', ''circle''), (''width'', ''wide''), (''height'', ''tall''),
                        (''strokeWidth'', ''thick'')] []]"
  "getElementsByTagName (sample_parser c) ''edge'' =
     [Element ''edge'' [(''source'', ''a''), (''target'', ''b''), (''type'', ''dashed''),
                        (''name'', ''joins'')] [],
      Element ''edge'' [(''source'', ''a''), (''target'', ''ghost'')] []]"
  by (simp_all add: sample_parser_def sample_doc_def getElementsByTagName_def)

lemma sample_doc_batch:
  "list_all (\<lambda>e. registered0 (getAttribute e ''type'')) (getElementsByTagName (sample_parser c) ''node'')"
  "list_all (\<lambda>e. getAttribute e ''id'' \<noteq> None) (getElementsByTagName (sample_parser c) ''node'')"
  "distinct (map (\<lambda>e. getAttribute e ''id'') (getElementsByTagName (sample_parser c) ''node''))"
  by (simp_all add: sample_nodes_of_doc registered0_def)

lemma sample_rows_batch:
  "list_all (\<lambda>r. registered0 (field r ''type'')) (filter node_ok (sample_papa sample_nodes_text))"
  "distinct (map (\<lambda>r. field r ''id'') (filter node_ok (sample_papa sample_nodes_text)))"
  by (simp_all add: sample_rows_ok sample_node_rows_def field_def registered0_def)

lemma hexagon_csv_sections:
  "split_sections hexagon_csv = [hexagon_nodes_text @ LF, LF @ hexagon_edges_text]"
  by (simp add: split_sections_def hexagon_csv_def hexagon_nodes_text_def
        hexagon_edges_text_def LF_def)

lemma hexagon_trim:
  "trim (hexagon_nodes_text @ LF) = hexagon_nodes_text"
  "trim (LF @ hexagon_edges_text) = hexagon_edges_text"
  by (simp_all add: trim_def hexagon_nodes_text_def hexagon_edges_text_def LF_def is_space_def)

lemma hexagon_not_registered:
  "\<not> list_all (\<lambda>e. registered0 (getAttribute e ''type''))
       (getElementsByTagName (hexagon_parser c) ''node'')"
  "\<not> list_all (\<lambda>r. registered0 (field r ''type''))
       (filter node_ok (hexagon_papa hexagon_nodes_text))"
  by (simp_all add: hexagon_parser_def hexagon_doc_def getElementsByTagName_def
        hexagon_papa_def hexagon_node_rows_def node_ok_def field_def truthy_def registered0_def)

lemma sample_sections_nonempty:
  "sample_nodes_text @ LF \<noteq> []" "LF @ sample_edges_text \<noteq> []"
  "hexagon_nodes_text @ LF \<noteq> []" "LF @ hexagon_edges_text \<noteq> []"
  by (simp_all add: LF_def)

lemma st0_fields:
  "st_graph st0 = Some clearCells" "st_events st0 = []" "st_error st0 = None"
  by (simp_all add: st0_def)

subsection \<open>Nodes in the graph and where they come from\<close>

lemma stored_from:
  assumes "set xs \<subseteq> set (map f ys)" and "\<And>y. y \<in> set ys \<Longrightarrow> P y (f y)"
  shows "list_all (\<lambda>m. list_ex (\<lambda>y. P y m) ys) xs"
  using assms by (auto simp: list_all_iff list_ex_iff)


subsection \<open>Separator lines\<close>



subsection \<open>Payload of a stored node\<close>


lemma or_default_falsy: "\<not> truthy a \<Longrightarrow> or_default a d = d"
  by (cases a) (simp_all add: truthy_def or_default_def)



lemma markup_style_defaults:
  assumes "\<not> truthy (getAttribute e ''fill'')" and "\<not> truthy (getAttribute e ''stroke'')"
    and "\<not> truthy (getAttribute e ''strokeWidth'')"
  shows "m_body (xml_node_meta (xml_node e)) =
           \<lparr>b_fill = ''#3366cc'', b_stroke = Some ''#000'', b_strokeWidth = JNum (Fin 1)\<rparr>"
  using assms by (simp add: xml_node_meta_def xml_node_def or_default_falsy parseInt10_1)



section \<open>Claims\<close>

text \<open>
  C1, as the code has it. No import looks at the endpoints of an edge. When no node
  insertion throws (every shape name is registered), the markup path hands every
  \<open>edge\<close> element to the graph and the tabular path every edge row whose source and
  target are not empty, in order, and neither writes a message for an endpoint that is
  not among the imported nodes; so the edges whose endpoints resolve are all inserted.
  When a node insertion throws, the import ends there with its message on the banner
  and no edge is inserted.
\<close>

theorem edges_inserted_unchecked:
  assumes "st_graph st = Some g"
    and "st_graph st' = Some g'"
    and "split_sections csvContent = nc # ec # rest" and "nc \<noteq> []" and "ec \<noteq> []"
  shows "store_edges (processXML p uuid registered xmlContent st) =
           (if list_all (\<lambda>e. registered (getAttribute e ''type''))
                 (getElementsByTagName (p xmlContent) ''node'')
            then map (\<lambda>e. xml_edge_meta (xml_edge e)) (getElementsByTagName (p xmlContent) ''edge'')
            else []) \<and>
         (list_all (\<lambda>e. registered (getAttribute e ''type''))
             (getElementsByTagName (p xmlContent) ''node'') \<longrightarrow>
            map e_source (store_edges (processXML p uuid registered xmlContent st)) =
              map (\<lambda>e. getAttribute e ''source'') (getElementsByTagName (p xmlContent) ''edge'') \<and>
            map e_target (store_edges (processXML p uuid registered xmlContent st)) =
              map (\<lambda>e. getAttribute e ''target'') (getElementsByTagName (p xmlContent) ''edge'') \<and>
            st_events (processXML p uuid registered xmlContent st) =
              st_events st @ [ConsoleLog ''Parsed Nodes:'', ConsoleLog ''Parsed Edges:''] \<and>
            st_error (processXML p uuid registered xmlContent st) = st_error st) \<and>
         (\<not> list_all (\<lambda>e. registered (getAttribute e ''type''))
             (getElementsByTagName (p xmlContent) ''node'') \<longrightarrow>
            st_error (processXML p uuid registered xmlContent st) = Some xml_error_message) \<and>
         store_edges (processCSV parse uuid registered csvContent st') =
           (if list_all (\<lambda>r. registered (field r ''type'')) (filter node_ok (parse (trim nc)))
            then map csv_edge_meta (filter edge_ok (parse (trim ec)))
            else []) \<and>
         (list_all (\<lambda>r. registered (field r ''type'')) (filter node_ok (parse (trim nc))) \<longrightarrow>
            map e_source (store_edges (processCSV parse uuid registered csvContent st')) =
              map (\<lambda>r. field r ''source'') (filter edge_ok (parse (trim ec))) \<and>
            map e_target (store_edges (processCSV parse uuid registered csvContent st')) =
              map (\<lambda>r. field r ''target'') (filter edge_ok (parse (trim ec))) \<and>
            st_events (processCSV parse uuid registered csvContent st') =
              st_events st' @
              [ConsoleLog ''Parsed Nodes Data:'', ConsoleLog ''Parsed Edges Data:''] @
              map (ConsoleError ''Invalid node data:'')
                (filter (\<lambda>r. \<not> node_ok r) (parse (trim nc))) @
              map (ConsoleError ''Invalid edge data:'')
                (filter (\<lambda>r. \<not> edge_ok r) (parse (trim ec))) \<and>
            st_error (processCSV parse uuid registered csvContent st') = st_error st') \<and>
         (\<not> list_all (\<lambda>r. registered (field r ''type'')) (filter node_ok (parse (trim nc))) \<longrightarrow>
            st_error (processCSV parse uuid registered csvContent st') = Some csv_error_message)"
proof -
  let ?xr = "list_all (\<lambda>e. registered (getAttribute e ''type''))
               (getElementsByTagName (p xmlContent) ''node'')"
  let ?cr = "list_all (\<lambda>r. registered (field r ''type'')) (filter node_ok (parse (trim nc)))"
  have x: "all_registered registered (map xml_node_meta (xml_nodes (p xmlContent))) = ?xr"
    by (rule xml_all_registered)
  have c: "all_registered registered (map csv_node_meta (filter node_ok (parse (trim nc)))) = ?cr"
    by (rule csv_all_registered)
  have xml: ?thesis if ?xr ?cr
    using that
      processXML_done [where p = p and c = xmlContent and uuid = uuid, OF assms(1)]
      processCSV_done [where parse = parse and nc = nc and uuid = uuid, OF assms(2-5)]
    by (simp add: x c xml_edges_def xml_edge_meta_def xml_edge_def csv_edge_meta_def)
  have xml2: ?thesis if ?xr "\<not> ?cr"
    using that
      processXML_done [where p = p and c = xmlContent and uuid = uuid, OF assms(1)]
      processCSV_thrown [where parse = parse and nc = nc and uuid = uuid, OF assms(2-5)]
    by (simp add: x c xml_edges_def xml_edge_meta_def xml_edge_def csv_edge_meta_def)
  have xml3: ?thesis if "\<not> ?xr" ?cr
    using that
      processXML_thrown [where p = p and c = xmlContent and uuid = uuid, OF assms(1)]
      processCSV_done [where parse = parse and nc = nc and uuid = uuid, OF assms(2-5)]
    by (simp add: x c xml_edges_def xml_edge_meta_def xml_edge_def csv_edge_meta_def)
  have xml4: ?thesis if "\<not> ?xr" "\<not> ?cr"
    using that
      processXML_thrown [where p = p and c = xmlContent and uuid = uuid, OF assms(1)]
      processCSV_thrown [where parse = parse and nc = nc and uuid = uuid, OF assms(2-5)]
    by (simp add: x c xml_edges_def xml_edge_meta_def xml_edge_def csv_edge_meta_def)
  show ?thesis
    using xml xml2 xml3 xml4 by blast
qed

theorem edges_inserted_unchecked_witness:
  "st_graph st0 = Some clearCells \<and>
   split_sections sample_csv = [sample_nodes_text @ LF, LF @ sample_edges_text] \<and>
   sample_nodes_text @ LF \<noteq> [] \<and> LF @ sample_edges_text \<noteq> [] \<and>
   list_all (\<lambda>e. registered0 (getAttribute e ''type''))
     (getElementsByTagName (sample_parser []) ''node'') \<and>
   list_all (\<lambda>r. registered0 (field r ''type''))
     (filter node_ok (sample_papa (trim (sample_nodes_text @ LF)))) \<and>
   map e_target (store_edges (processXML sample_parser uuid0 registered0 [] st0)) =
     [Some ''b'', Some ''ghost''] \<and>
   map e_target (store_edges (processCSV sample_papa uuid0 registered0 sample_csv st0)) =
     [Some ''c'', Some ''ghost''] \<and>
   split_sections hexagon_csv = [hexagon_nodes_text @ LF, LF @ hexagon_edges_text] \<and>
   \<not> list_all (\<lambda>e. registered0 (getAttribute e ''type''))
       (getElementsByTagName (hexagon_parser []) ''node'') \<and>
   \<not> list_all (\<lambda>r. registered0 (field r ''type''))
       (filter node_ok (hexagon_papa (trim (hexagon_nodes_text @ LF)))) \<and>
   store_edges (processXML hexagon_parser uuid0 registered0 [] st0) = [] \<and>
   st_error (processXML hexagon_parser uuid0 registered0 [] st0) = Some xml_error_message \<and>
   store_edges (processCSV hexagon_papa uuid0 registered0 hexagon_csv st0) = [] \<and>
   st_error (processCSV hexagon_papa uuid0 registered0 hexagon_csv st0) = Some csv_error_message"
proof -
  note a = edges_inserted_unchecked [OF st0_fields(1) st0_fields(1) sample_csv_sections
      sample_sections_nonempty(1,2), where p = sample_parser and uuid = uuid0
      and registered = registered0 and xmlContent = "[]" and parse = sample_papa]
  note b = edges_inserted_unchecked [OF st0_fields(1) st0_fields(1) hexagon_csv_sections
      sample_sections_nonempty(3,4), where p = hexagon_parser and uuid = uuid0
      and registered = registered0 and xmlContent = "[]" and parse = hexagon_papa]
  have s: "map (\<lambda>e. getAttribute e ''target'') (getElementsByTagName (sample_parser []) ''edge'')
      = [Some ''b'', Some ''ghost'']"
    "map (\<lambda>r. field r ''target'') (filter edge_ok (sample_papa sample_edges_text))
      = [Some ''c'', Some ''ghost'']"
    by (simp_all add: sample_nodes_of_doc sample_rows_ok sample_edge_rows_def field_def)
  show ?thesis
    using a b sample_doc_batch(1) [of "[]"] sample_rows_batch(1) hexagon_not_registered(1) [of "[]"]
      hexagon_not_registered(2) st0_fields(1) sample_csv_sections hexagon_csv_sections
      sample_sections_nonempty s
    by (simp add: sample_trim hexagon_trim sample_nodes_of_doc sample_rows_ok
          sample_edge_rows_def field_def xml_edge_meta_def xml_edge_def csv_edge_meta_def)
qed

text \<open>
  C1 as stated fails: in the sample document and in the sample table, whose shape names
  are all registered, an edge from \<open>a\<close> to \<open>ghost\<close>, which is no node of the import, is
  in the graph afterwards, and nothing was written about it.
\<close>

theorem dangling_edge_inserted:
  "map m_id (store_nodes (processXML sample_parser uuid0 registered0 [] st0)) =
     [Some ''a'', Some ''b'', Some ''c''] \<and>
   map e_target (store_edges (processXML sample_parser uuid0 registered0 [] st0)) =
     [Some ''b'', Some ''ghost''] \<and>
   st_events (processXML sample_parser uuid0 registered0 [] st0) =
     [ConsoleLog ''Parsed Nodes:'', ConsoleLog ''Parsed Edges:''] \<and>
   st_error (processXML sample_parser uuid0 registered0 [] st0) = None \<and>
   map m_id (store_nodes (processCSV sample_papa uuid0 registered0 sample_csv st0)) =
     [Some ''a'', Some ''c''] \<and>
   map e_target (store_edges (processCSV sample_papa uuid0 registered0 sample_csv st0)) =
     [Some ''c'', Some ''ghost''] \<and>
   st_events (processCSV sample_papa uuid0 registered0 sample_csv st0) =
     [ConsoleLog ''Parsed Nodes Data:'', ConsoleLog ''Parsed Edges Data:'',
      ConsoleError ''Invalid node data:'' (sample_node_rows ! 1),
      ConsoleError ''Invalid node data:'' (sample_node_rows ! 3),
      ConsoleError ''Invalid edge data:'' (sample_edge_rows ! 1)] \<and>
   st_error (processCSV sample_papa uuid0 registered0 sample_csv st0) = None"
proof -
  have xr: "all_registered registered0 (map xml_node_meta (xml_nodes (sample_parser [])))"
    using sample_doc_batch(1) [of "[]"] by (simp add: xml_all_registered)
  have xb: "batch_ok registered0 (map xml_node_meta (xml_nodes (sample_parser [])))"
    by (rule xml_batch_ok [OF sample_doc_batch])
  have cb: "batch_ok registered0
      (map csv_node_meta (filter node_ok (sample_papa (trim (sample_nodes_text @ LF)))))"
    using csv_batch_ok [OF sample_rows_batch] by (simp add: sample_trim)
  then have cr: "all_registered registered0
      (map csv_node_meta (filter node_ok (sample_papa (trim (sample_nodes_text @ LF)))))"
    by (simp add: batch_ok_def all_registered_def)
  note x = processXML_done(2-4) [where p = sample_parser and c = "[]" and uuid = uuid0,
      OF st0_fields(1) xr]
    processXML_batch [where p = sample_parser and c = "[]" and uuid = uuid0,
      OF st0_fields(1) xb]
  note c = processCSV_done(2-4) [where parse = sample_papa and uuid = uuid0,
      OF st0_fields(1) sample_csv_sections sample_sections_nonempty(1,2) cr]
    processCSV_batch [where parse = sample_papa and uuid = uuid0,
      OF st0_fields(1) sample_csv_sections sample_sections_nonempty(1,2) cb]
  show ?thesis
    by (simp add: x c st0_fields sample_trim sample_rows_ok sample_node_rows_def
          sample_edge_rows_def sample_nodes_of_doc field_def
          xml_nodes_def xml_edges_def xml_node_meta_def xml_node_def
          xml_edge_meta_def xml_edge_def csv_edge_meta_def csv_node_meta_def)
qed

text \<open>
  C2. A node that gives no fill, stroke or stroke width should come out with fill
  \<open>#3366cc\<close>, stroke \<open>#000\<close> and stroke width 1. The markup path does so. The tabular
  path defaults the fill and the stroke width but hands over the stroke as the row has
  it: every node it inserts has the stroke of an accepted row of the same identifier,
  undefined when the row has none; and when the graph takes the whole batch, the strokes
  in the graph are those of the accepted rows, in order.
\<close>

theorem tabular_stroke_passed_on:
  assumes "st_graph st = Some g"
    and "split_sections csvContent = nc # ec # rest" and "nc \<noteq> []" and "ec \<noteq> []"
  shows "list_all
           (\<lambda>m. list_ex (\<lambda>r. m_id m = field r ''id'' \<and> b_stroke (m_body m) = field r ''stroke'')
                   (filter node_ok (parse (trim nc))))
           (store_nodes (processCSV parse uuid registered csvContent st)) \<and>
         (list_all (\<lambda>r. registered (field r ''type'')) (filter node_ok (parse (trim nc))) \<and>
          distinct (map (\<lambda>r. field r ''id'') (filter node_ok (parse (trim nc)))) \<longrightarrow>
            map (\<lambda>m. b_stroke (m_body m))
              (store_nodes (processCSV parse uuid registered csvContent st)) =
            map (\<lambda>r. field r ''stroke'') (filter node_ok (parse (trim nc))))"
proof (intro conjI impI)
  show "list_all
           (\<lambda>m. list_ex (\<lambda>r. m_id m = field r ''id'' \<and> b_stroke (m_body m) = field r ''stroke'')
                   (filter node_ok (parse (trim nc))))
           (store_nodes (processCSV parse uuid registered csvContent st))"
    by (rule stored_from [OF processCSV_nodes_from [OF assms(2-4)]])
       (simp add: csv_node_meta_def)
next
  assume "list_all (\<lambda>r. registered (field r ''type'')) (filter node_ok (parse (trim nc))) \<and>
          distinct (map (\<lambda>r. field r ''id'') (filter node_ok (parse (trim nc))))"
  then have "batch_ok registered (map csv_node_meta (filter node_ok (parse (trim nc))))"
    using csv_batch_ok by blast
  then show "map (\<lambda>m. b_stroke (m_body m))
              (store_nodes (processCSV parse uuid registered csvContent st)) =
            map (\<lambda>r. field r ''stroke'') (filter node_ok (parse (trim nc)))"
    by (simp add: processCSV_batch [where parse = parse and nc = nc, OF assms]
          csv_node_meta_def)
qed

theorem tabular_stroke_passed_on_witness:
  "st_graph st0 = Some clearCells \<and>
   split_sections sample_csv = [sample_nodes_text @ LF, LF @ sample_edges_text] \<and>
   sample_nodes_text @ LF \<noteq> [] \<and> LF @ sample_edges_text \<noteq> [] \<and>
   list_all (\<lambda>r. registered0 (field r ''type''))
     (filter node_ok (sample_papa (trim (sample_nodes_text @ LF)))) \<and>
   distinct (map (\<lambda>r. field r ''id'') (filter node_ok (sample_papa (trim (sample_nodes_text @ LF))))) \<and>
   map (\<lambda>r. field r ''stroke'') (filter node_ok (sample_papa sample_nodes_text)) = [None, None] \<and>
   map (\<lambda>m. b_stroke (m_body m))
     (store_nodes (processCSV sample_papa uuid0 registered0 sample_csv st0)) = [None, None]"
proof -
  have s: "map (\<lambda>r. field r ''stroke'') (filter node_ok (sample_papa sample_nodes_text)) =
      [None, None]"
    by (simp add: sample_rows_ok sample_node_rows_def field_def)
  show ?thesis
    using tabular_stroke_passed_on [OF st0_fields(1) sample_csv_sections
        sample_sections_nonempty(1,2), where parse = sample_papa and uuid = uuid0
        and registered = registered0]
      sample_rows_batch st0_fields(1) sample_csv_sections sample_sections_nonempty(1,2) s
    by (simp add: sample_trim)
qed

text \<open>
  C3, as the code has it. A width, height or stroke width that is missing or empty
  gives the default (100, 100, 1) on both paths. One that is present and holds no decimal
  digit does not: on the markup path it gives NaN; on the tabular path the width and the
  height are not finite (NaN, or an infinity for the word Infinity) and the stroke
  width is handed over as the text it is. No step of the coercion throws.
\<close>

theorem numeric_coercion:
  "(\<not> truthy (getAttribute e ''width'') \<longrightarrow> nd_width (xml_node e) = Fin 100) \<and>
   (\<not> truthy (getAttribute e ''height'') \<longrightarrow> nd_height (xml_node e) = Fin 100) \<and>
   (\<not> truthy (getAttribute e ''strokeWidth'') \<longrightarrow> nd_strokeWidth (xml_node e) = Fin 1) \<and>
   (\<not> truthy (field r ''width'') \<longrightarrow> m_width (csv_node_meta r) = Some (Fin 100)) \<and>
   (\<not> truthy (field r ''height'') \<and> field r ''type'' \<noteq> Some ''rectangle'' \<longrightarrow>
      m_height (csv_node_meta r) = Some (Fin 100)) \<and>
   (\<not> truthy (field r ''strokeWidth'') \<longrightarrow>
      b_strokeWidth (m_body (csv_node_meta r)) = JNum (Fin 1)) \<and>
   (getAttribute e' ''width'' = Some w \<and> w \<noteq> [] \<and> no_digit w \<longrightarrow>
      nd_width (xml_node e') = NaN) \<and>
   (getAttribute e' ''height'' = Some h \<and> h \<noteq> [] \<and> no_digit h \<longrightarrow>
      nd_height (xml_node e') = NaN) \<and>
   (getAttribute e' ''strokeWidth'' = Some sw \<and> sw \<noteq> [] \<and> no_digit sw \<longrightarrow>
      nd_strokeWidth (xml_node e') = NaN) \<and>
   (field r' ''width'' = Some w \<and> w \<noteq> [] \<and> no_digit w \<longrightarrow>
      not_finite (m_width (csv_node_meta r'))) \<and>
   (field r' ''height'' = Some h \<and> h \<noteq> [] \<and> no_digit h \<and>
      field r' ''type'' \<noteq> Some ''rectangle'' \<longrightarrow>
      not_finite (m_height (csv_node_meta r'))) \<and>
   (field r' ''strokeWidth'' = Some sw \<and> sw \<noteq> [] \<longrightarrow>
      b_strokeWidth (m_body (csv_node_meta r')) = JStr sw)"
proof -
  have d: "\<not> truthy a \<Longrightarrow> or_default a t = t" for a t
    by (cases a) (simp_all add: truthy_def or_default_def)
  have p: "a = Some s \<Longrightarrow> s \<noteq> [] \<Longrightarrow> or_default a t = s \<and> truthy a" for a s t
    by (simp add: truthy_def or_default_def)
  show ?thesis
    by (auto simp: xml_node_def csv_node_meta_def d p parseInt10_100 parseInt10_1
          parseFloat_100 parseInt10_no_digit parseFloat_no_digit not_finite_def)
qed

theorem numeric_coercion_witness:
  "\<not> truthy (getAttribute (Element ''node'' [] []) ''width'') \<and>
   \<not> truthy (getAttribute (Element ''node'' [] []) ''height'') \<and>
   \<not> truthy (getAttribute (Element ''node'' [] []) ''strokeWidth'') \<and>
   \<not> truthy (field [(''type'', ''circle''), (''width'', [])] ''width'') \<and>
   \<not> truthy (field [(''type'', ''circle''), (''width'', [])] ''height'') \<and>
   \<not> truthy (field [(''type'', ''circle''), (''width'', [])] ''strokeWidth'') \<and>
   field [(''type'', ''circle''), (''width'', [])] ''type'' \<noteq> Some ''rectangle'' \<and>
   no_digit ''wide'' \<and> no_digit ''tall'' \<and> no_digit ''thick'' \<and>
   nd_width (xml_node (Element ''node'' [] [])) = Fin 100 \<and>
   nd_height (xml_node (Element ''node'' [] [])) = Fin 100 \<and>
   nd_strokeWidth (xml_node (Element ''node'' [] [])) = Fin 1 \<and>
   m_width (csv_node_meta [(''type'', ''circle''), (''width'', [])]) = Some (Fin 100) \<and>
   m_height (csv_node_meta [(''type'', ''circle''), (''width'', [])]) = Some (Fin 100) \<and>
   b_strokeWidth (m_body (csv_node_meta [(''type'', ''circle''), (''width'', [])])) = JNum (Fin 1) \<and>
   nd_width (xml_node (Element ''node''
      [(''width'', ''wide''), (''height'', ''tall''), (''strokeWidth'', ''thick'')] [])) = NaN \<and>
   nd_height (xml_node (Element ''node''
      [(''width'', ''wide''), (''height'', ''tall''), (''strokeWidth'', ''thick'')] [])) = NaN \<and>
   nd_strokeWidth (xml_node (Element ''node''
      [(''width'', ''wide''), (''height'', ''tall''), (''strokeWidth'', ''thick'')] [])) = NaN \<and>
   not_finite (m_width (csv_node_meta
      [(''type'', ''circle''), (''width'', ''wide''), (''height'', ''tall''),
       (''strokeWidth'', ''thick'')])) \<and>
   not_finite (m_height (csv_node_meta
      [(''type'', ''circle''), (''width'', ''wide''), (''height'', ''tall''),
       (''strokeWidth'', ''thick'')])) \<and>
   b_strokeWidth (m_body (csv_node_meta
      [(''type'', ''circle''), (''width'', ''wide''), (''height'', ''tall''),
       (''strokeWidth'', ''thick'')])) = JStr ''thick''"
  using numeric_coercion [where e = "Element ''node'' [] []"
      and r = "[(''type'', ''circle''), (''width'', [])]"
      and e' = "Element ''node''
         [(''width'', ''wide''), (''height'', ''tall''), (''strokeWidth'', ''thick'')] []"
      and r' = "[(''type'', ''circle''), (''width'', ''wide''), (''height'', ''tall''),
         (''strokeWidth'', ''thick'')]"
      and w = "''wide''" and h = "''tall''" and sw = "''thick''"]
  by (simp add: truthy_def field_def no_digit_def is_digit_def)

text \<open>
  C3 as stated fails: a width that is present and not numeric gives NaN on both paths,
  not the default 100.
\<close>

theorem non_numeric_width_is_nan:
  "nd_width (xml_node (Element ''node'' [(''id'', ''c''), (''width'', ''wide'')] [])) = NaN \<and>
   m_width (csv_node_meta [(''id'', ''c''), (''width'', ''wide'')]) = Some NaN"
  by (simp add: xml_node_def csv_node_meta_def field_def number_defs)









text \<open>
  C7. The copy of a selected node N at (x, y) should add one node at (x+100, y+100) with
  N's label, shape, size and style, and one dashed edge from N to it. The code reads
  \<open>x\<close>, \<open>y\<close>, \<open>width\<close>, \<open>height\<close> and \<open>label\<close> from an object that has no such
  keys: the one node it adds is at (NaN, NaN) and has no width, height or label; only the
  shape and the attributes are N's. The dashed edge from N to the new node is added and the
  dialog is closed; the selection still holds N's identifier.
\<close>

theorem copy_node_misplaced:
  assumes "st_graph st = Some g"
    and "st_selectedNode st = Some n" and "n \<noteq> []"
    and "getNodeById g n = Some N"
    and "registered (m_shape N)"
    and "uuid g \<notin> set (map fst (g_nodes g))"
  shows "\<exists>st' g' M E.
           handleCopyNode uuid registered st = Inr st' \<and>
           st_graph st' = Some g' \<and>
           g_nodes g' = g_nodes g @ [(uuid g, M)] \<and>
           g_edges g' = g_edges g @ [E] \<and>
           m_x M = NaN \<and> m_y M = NaN \<and>
           m_width M = None \<and> m_height M = None \<and> m_label M = None \<and>
           m_shape M = m_shape N \<and> m_body M = m_body N \<and> m_text M = m_text N \<and>
           e_source E = Some n \<and> e_target E = Some (uuid g) \<and>
           l_strokeDasharray (e_line E) = Some ''5, 5'' \<and>
           st_showModal st' = False \<and> st_selectedNode st' = Some n"
  using assms
  by (simp add: handleCopyNode_def Let_def addNode_def addEdge_def copy_meta_def copy_edge_def
        toJSON_def plus_number_def)

theorem copy_node_misplaced_witness:
  "st_graph sample_selected = Some sample_graph \<and>
   st_selectedNode sample_selected = Some ''a'' \<and> ''a'' \<noteq> [] \<and>
   getNodeById sample_graph ''a'' = Some sample_node \<and>
   registered0 (m_shape sample_node) \<and>
   uuid0 sample_graph \<notin> set (map fst (g_nodes sample_graph)) \<and>
   m_x sample_node = Fin 10 \<and> m_y sample_node = Fin 20 \<and>
   (\<exists>st' g' M E.
      handleCopyNode uuid0 registered0 sample_selected = Inr st' \<and>
      st_graph st' = Some g' \<and>
      g_nodes g' = g_nodes sample_graph @ [(uuid0 sample_graph, M)] \<and>
      g_edges g' = g_edges sample_graph @ [E] \<and>
      m_x M = NaN \<and> m_y M = NaN \<and>
      m_width M = None \<and> m_height M = None \<and> m_label M = None \<and>
      m_shape M = m_shape sample_node \<and> m_body M = m_body sample_node \<and>
      m_text M = m_text sample_node \<and>
      e_source E = Some ''a'' \<and> e_target E = Some (uuid0 sample_graph) \<and>
      l_strokeDasharray (e_line E) = Some ''5, 5'' \<and>
      st_showModal st' = False \<and> st_selectedNode st' = Some ''a'')"
proof -
  have h1: "st_graph sample_selected = Some sample_graph" by (simp add: sample_selected_def)
  have h2: "st_selectedNode sample_selected = Some ''a''" by (simp add: sample_selected_def)
  have h3: "''a'' \<noteq> []" by simp
  have h4: "getNodeById sample_graph ''a'' = Some sample_node"
    by (simp add: getNodeById_def sample_graph_def)
  have h5: "registered0 (m_shape sample_node)"
    by (simp add: registered0_def sample_node_def)
  have h6: "uuid0 sample_graph \<notin> set (map fst (g_nodes sample_graph))"
    by (simp add: uuid0_def sample_graph_def)
  have h7: "m_x sample_node = Fin 10 \<and> m_y sample_node = Fin 20"
    by (simp add: sample_node_def)
  show ?thesis
    using h1 h2 h3 h4 h5 h6 h7 copy_node_misplaced [where uuid = uuid0 and registered = registered0,
        OF h1 h2 h3 h4 h5 h6]
    by blast
qed




text \<open>
  C9. The node records of a markup import are as many as the \<open>node\<close> elements of
  the document, the identifier of each record is the \<open>id\<close> attribute of its element, and
  the records are in document order.
\<close>

theorem markup_node_records:
  "length (xml_nodes d) = length (filter (\<lambda>e. tagName e = ''node'') (elements d)) \<and>
   map nd_id (xml_nodes d) =
     map (\<lambda>e. getAttribute e ''id'') (filter (\<lambda>e. tagName e = ''node'') (elements d))"
  by (simp add: xml_nodes_def getElementsByTagName_def xml_node_def)

text \<open>
  C10. An edge of a markup import carries a label whose text is the \<open>name\<close> attribute,
  or the empty text when there is none; an edge of a tabular import carries no label,
  whatever its row holds under \<open>name\<close>. The edges in the graph are those of all
  \<open>edge\<close> elements, or of all edge rows with a source and a target, when no node
  insertion throws, and none otherwise.
\<close>

theorem edge_labels:
  assumes "st_graph st = Some g"
    and "st_graph st' = Some g'"
    and "split_sections csvContent = nc # ec # rest" and "nc \<noteq> []" and "ec \<noteq> []"
  shows "map e_label (store_edges (processXML p uuid registered xmlContent st)) =
           (if list_all (\<lambda>e. registered (getAttribute e ''type''))
                 (getElementsByTagName (p xmlContent) ''node'')
            then map (\<lambda>e. Some \<lparr>lb_text = (case getAttribute e ''name'' of None \<Rightarrow> [] | Some s \<Rightarrow> s),
                               lb_fill = ''#333'', lb_fontSize = 12\<rparr>)
                   (getElementsByTagName (p xmlContent) ''edge'')
            else []) \<and>
         map e_label (store_edges (processCSV parse uuid registered csvContent st')) =
           (if list_all (\<lambda>r. registered (field r ''type'')) (filter node_ok (parse (trim nc)))
            then map (\<lambda>r. None) (filter edge_ok (parse (trim ec)))
            else [])"
proof -
  have n: "or_default (if truthy a then a else None) [] = (case a of None \<Rightarrow> [] | Some s \<Rightarrow> s)"
    for a :: "string option"
    by (cases a) (simp_all add: or_default_def truthy_def)
  have x: "all_registered registered (map xml_node_meta (xml_nodes (p xmlContent))) =
      list_all (\<lambda>e. registered (getAttribute e ''type'')) (getElementsByTagName (p xmlContent) ''node'')"
    by (rule xml_all_registered)
  have c: "all_registered registered (map csv_node_meta (filter node_ok (parse (trim nc)))) =
      list_all (\<lambda>r. registered (field r ''type'')) (filter node_ok (parse (trim nc)))"
    by (rule csv_all_registered)
  have "map e_label (store_edges (processXML p uuid registered xmlContent st)) =
           (if list_all (\<lambda>e. registered (getAttribute e ''type''))
                 (getElementsByTagName (p xmlContent) ''node'')
            then map (\<lambda>e. Some \<lparr>lb_text = (case getAttribute e ''name'' of None \<Rightarrow> [] | Some s \<Rightarrow> s),
                               lb_fill = ''#333'', lb_fontSize = 12\<rparr>)
                   (getElementsByTagName (p xmlContent) ''edge'')
            else [])"
    using processXML_done(2) [where p = p and c = xmlContent and uuid = uuid, OF assms(1)]
      processXML_thrown(1) [where p = p and c = xmlContent and uuid = uuid, OF assms(1)]
    by (simp add: x n xml_edges_def xml_edge_meta_def xml_edge_def)
  moreover have "map e_label (store_edges (processCSV parse uuid registered csvContent st')) =
           (if list_all (\<lambda>r. registered (field r ''type'')) (filter node_ok (parse (trim nc)))
            then map (\<lambda>r. None) (filter edge_ok (parse (trim ec)))
            else [])"
    using processCSV_done(2) [where parse = parse and nc = nc and uuid = uuid, OF assms(2-5)]
      processCSV_thrown(1) [where parse = parse and nc = nc and uuid = uuid, OF assms(2-5)]
    by (simp add: c csv_edge_meta_def)
  ultimately show ?thesis by blast
qed

theorem edge_labels_witness:
  "st_graph st0 = Some clearCells \<and>
   split_sections sample_csv = [sample_nodes_text @ LF, LF @ sample_edges_text] \<and>
   sample_nodes_text @ LF \<noteq> [] \<and> LF @ sample_edges_text \<noteq> [] \<and>
   list_all (\<lambda>e. registered0 (getAttribute e ''type''))
     (getElementsByTagName (sample_parser []) ''node'') \<and>
   list_all (\<lambda>r. registered0 (field r ''type''))
     (filter node_ok (sample_papa (trim (sample_nodes_text @ LF)))) \<and>
   map e_label (store_edges (processXML sample_parser uuid0 registered0 [] st0)) =
     [Some \<lparr>lb_text = ''joins'', lb_fill = ''#333'', lb_fontSize = 12\<rparr>,
      Some \<lparr>lb_text = [], lb_fill = ''#333'', lb_fontSize = 12\<rparr>] \<and>
   field (sample_edge_rows ! 0) ''name'' = Some ''joins'' \<and>
   map e_label (store_edges (processCSV sample_papa uuid0 registered0 sample_csv st0)) =
     [None, None]"
  using edge_labels [OF st0_fields(1) st0_fields(1) sample_csv_sections
      sample_sections_nonempty(1,2), where p = sample_parser and uuid = uuid0
      and registered = registered0 and xmlContent = "[]" and parse = sample_papa]
    sample_doc_batch(1) [of "[]"] sample_rows_batch(1)
    st0_fields(1) sample_csv_sections sample_sections_nonempty(1,2)
  by (simp add: sample_trim sample_rows_ok sample_edge_rows_def sample_nodes_of_doc field_def)

end
